theory Spec2Isabelle
  imports Complex_Main
begin

section \<open>Python strings\<close>

text \<open>
  A Python \<^verbatim>\<open>str\<close> is modelled as a \<^typ>\<open>string\<close>.  The model is exact on ASCII text;
  a character above 127 stands for a character that is neither whitespace, nor a digit,
  nor a letter with a lower case.  \<open>isspace\<close> is the whitespace of \<^verbatim>\<open>str.strip()\<close>
  and of the pattern \<^verbatim>\<open>\s\<close>: tab, line feed, vertical tab, form feed, carriage
  return, the four separators 0x1C to 0x1F, and the space.
\<close>

definition isspace :: "char \<Rightarrow> bool" where
  "isspace c = (c \<in> set [CHR 0x09, CHR 0x0A, CHR 0x0B, CHR 0x0C, CHR 0x0D,
                          CHR 0x1C, CHR 0x1D, CHR 0x1E, CHR 0x1F, CHR 0x20])"

definition isdigit :: "char \<Rightarrow> bool" where
  "isdigit c = (c \<in> set ''0123456789'')"

definition isupper :: "char \<Rightarrow> bool" where
  "isupper c = (c \<in> set ''ABCDEFGHIJKLMNOPQRSTUVWXYZ'')"

definition islower :: "char \<Rightarrow> bool" where
  "islower c = (c \<in> set ''abcdefghijklmnopqrstuvwxyz'')"

definition isalpha :: "char \<Rightarrow> bool" where
  "isalpha c = (isupper c \<or> islower c)"

definition lower_char :: "char \<Rightarrow> char" where
  "lower_char c =
     (case map_of (zip ''ABCDEFGHIJKLMNOPQRSTUVWXYZ'' ''abcdefghijklmnopqrstuvwxyz'') c of
        None \<Rightarrow> c
      | Some d \<Rightarrow> d)"

text \<open>\<^verbatim>\<open>s.lower()\<close>, \<^verbatim>\<open>s.lstrip()\<close>, \<^verbatim>\<open>s.rstrip()\<close>, \<^verbatim>\<open>s.strip()\<close>.\<close>

definition lower :: "string \<Rightarrow> string" where
  "lower s = map lower_char s"

definition lstrip :: "string \<Rightarrow> string" where
  "lstrip s = dropWhile isspace s"

definition rstrip :: "string \<Rightarrow> string" where
  "rstrip s = rev (dropWhile isspace (rev s))"

definition strip :: "string \<Rightarrow> string" where
  "strip s = rstrip (lstrip s)"

text \<open>\<^verbatim>\<open>s.startswith(p)\<close>.\<close>

fun startswith :: "string \<Rightarrow> string \<Rightarrow> bool" where
  "startswith s [] = True"
| "startswith [] (p # ps) = False"
| "startswith (c # cs) (p # ps) = (c = p \<and> startswith cs ps)"

text \<open>
  \<^verbatim>\<open>s.partition(sep)\<close>: the text before and after the first occurrence of \<open>sep\<close>,
  or \<open>None\<close> when \<open>sep\<close> does not occur.  \<^verbatim>\<open>sep in s\<close> is \<open>contains sep s\<close>,
  \<^verbatim>\<open>s.split(sep, 1)\<close> is \<open>str_split1 sep s\<close> and \<^verbatim>\<open>s.split(sep)\<close> is
  \<open>str_split sep s\<close>.  The source splits on literal, non-empty separators only
  (Python raises ValueError on an empty one; \<open>str_split\<close> returns \<open>[s]\<close> there).
\<close>

fun str_partition :: "string \<Rightarrow> string \<Rightarrow> (string \<times> string) option" where
  "str_partition sep [] = (if sep = [] then Some ([], []) else None)"
| "str_partition sep (c # cs) =
     (if startswith (c # cs) sep then Some ([], drop (length sep) (c # cs))
      else case str_partition sep cs of
             None \<Rightarrow> None
           | Some (a, b) \<Rightarrow> Some (c # a, b))"

definition contains :: "string \<Rightarrow> string \<Rightarrow> bool" where
  "contains sep s = (str_partition sep s \<noteq> None)"

definition str_split1 :: "string \<Rightarrow> string \<Rightarrow> string list" where
  "str_split1 sep s = (case str_partition sep s of None \<Rightarrow> [s] | Some (a, b) \<Rightarrow> [a, b])"

lemma startswith_length: "startswith s p \<Longrightarrow> length p \<le> length s"
  by (induction s p rule: startswith.induct) auto

lemma str_partition_length:
  "str_partition sep s = Some (a, b) \<Longrightarrow> length a + length sep + length b = length s"
proof (induction s arbitrary: a b)
  case Nil
  then show ?case by (simp split: if_splits)
next
  case (Cons c cs)
  show ?case
  proof (cases "startswith (c # cs) sep")
    case True
    with Cons.prems startswith_length [OF True] show ?thesis by auto
  next
    case False
    with Cons.prems obtain a' where "str_partition sep cs = Some (a', b)" "a = c # a'"
      by (auto split: option.splits)
    with Cons.IH show ?thesis by simp
  qed
qed

function str_split :: "string \<Rightarrow> string \<Rightarrow> string list" where
  "str_split sep s =
     (case str_partition sep s of
        None \<Rightarrow> [s]
      | Some (a, b) \<Rightarrow> if sep = [] then [s] else a # str_split sep b)"
  by pat_completeness auto
termination
proof (relation "measure (\<lambda>(sep, s). length s)")
  show "wf (measure (\<lambda>(sep, s). length s))" by simp
next
  fix sep s :: string and x a b
  assume "str_partition sep s = Some x" "(a, b) = x" "sep \<noteq> []"
  then have "length a + length sep + length b = length s"
    using str_partition_length by metis
  with \<open>sep \<noteq> []\<close> show "((sep, b), (sep, s)) \<in> measure (\<lambda>(sep, s). length s)"
    by (cases sep) auto
qed

declare str_split.simps [simp del]

section \<open>Regular expressions\<close>

text \<open>
  The patterns of the source use character classes, greedy repetition of a class,
  greedy optional groups, capturing groups and the anchor \<^verbatim>\<open>$\<close>.  A pattern is a list
  of items matched in sequence.  \<open>Close\<close> is internal to the matcher: it marks where a
  capturing group ends and remembers the input at which the group began.
\<close>

datatype re =
    Lit char
  | Cls "char \<Rightarrow> bool"
  | Star "char \<Rightarrow> bool"
  | Plus "char \<Rightarrow> bool"
  | Opt "re list"
  | Grp nat "re list"
  | Close nat string
  | Eol

fun weight :: "re \<Rightarrow> nat" where
  "weight (Lit c) = 1"
| "weight (Cls p) = 1"
| "weight (Star p) = 1"
| "weight (Plus p) = 2"
| "weight (Opt rs) = 2 + sum_list (map weight rs)"
| "weight (Grp n rs) = 2 + sum_list (map weight rs)"
| "weight (Close n s) = 1"
| "weight Eol = 1"

type_synonym groups = "nat \<rightharpoonup> string"

text \<open>
  The backtracking matcher of Python's \<^verbatim>\<open>re\<close>: \<open>rmatch rs s g\<close> matches the items
  \<open>rs\<close> at the start of \<open>s\<close> and returns the groups and the unread input of the first
  match in backtracking order.  A repetition takes as many characters as it can and
  gives them back one at a time; an optional group is tried before it is skipped;
  \<^verbatim>\<open>$\<close> holds at the end of the input and before a final line feed.
\<close>

function rmatch :: "re list \<Rightarrow> string \<Rightarrow> groups \<Rightarrow> (groups \<times> string) option" where
  "rmatch [] s g = Some (g, s)"
| "rmatch (Lit x # rs) s g =
     (case s of [] \<Rightarrow> None | c # cs \<Rightarrow> if c = x then rmatch rs cs g else None)"
| "rmatch (Cls p # rs) s g =
     (case s of [] \<Rightarrow> None | c # cs \<Rightarrow> if p c then rmatch rs cs g else None)"
| "rmatch (Plus p # rs) s g =
     (case s of [] \<Rightarrow> None | c # cs \<Rightarrow> if p c then rmatch (Star p # rs) cs g else None)"
| "rmatch (Star p # rs) s g =
     (case s of
        [] \<Rightarrow> rmatch rs [] g
      | c # cs \<Rightarrow>
          if p c then
            (case rmatch (Star p # rs) cs g of
               Some r \<Rightarrow> Some r
             | None \<Rightarrow> rmatch rs (c # cs) g)
          else rmatch rs (c # cs) g)"
| "rmatch (Opt xs # rs) s g =
     (case rmatch (xs @ rs) s g of
        Some r \<Rightarrow> Some r
      | None \<Rightarrow> rmatch rs s g)"
| "rmatch (Grp n xs # rs) s g = rmatch (xs @ Close n s # rs) s g"
| "rmatch (Close n start # rs) s g =
     rmatch rs s (g(n \<mapsto> take (length start - length s) start))"
| "rmatch (Eol # rs) s g =
     (if s = [] \<or> s = [CHR 0x0A] then rmatch rs s g else None)"
  by pat_completeness auto
termination
  by (relation "measures [\<lambda>(rs, s, g). sum_list (map weight rs), \<lambda>(rs, s, g). length s]") auto

text \<open>
  \<^verbatim>\<open>re.match(p, s)\<close> matches at the start of \<open>s\<close> (a leading \<^verbatim>\<open>^\<close> of the pattern
  adds nothing to it); \<^verbatim>\<open>re.search(p, s)\<close> tries every start from left to right.
  \<open>re_group g n\<close> is \<^verbatim>\<open>m.group(n)\<close> for a group that took part in the match.
\<close>

definition re_match :: "re list \<Rightarrow> string \<Rightarrow> groups option" where
  "re_match rs s = map_option fst (rmatch rs s Map.empty)"

fun re_search :: "re list \<Rightarrow> string \<Rightarrow> groups option" where
  "re_search rs [] = re_match rs []"
| "re_search rs (c # cs) =
     (case re_match rs (c # cs) of
        Some g \<Rightarrow> Some g
      | None \<Rightarrow> re_search rs cs)"

definition re_group :: "groups \<Rightarrow> nat \<Rightarrow> string" where
  "re_group g n = (case g n of None \<Rightarrow> [] | Some x \<Rightarrow> x)"

section \<open>Python numbers\<close>

text \<open>
  A \<^verbatim>\<open>float\<close> is modelled by its value: a rational number, an infinity or NaN.
  Finite arithmetic is exact: the rounding of binary64 and its overflow are outside the
  model, and so is the sign of zero.  The \<^verbatim>\<open>int\<close> 0 that the parsers return on
  failure is \<open>Fin 0\<close>.
\<close>

datatype pyfloat = Fin rat | PInf | NInf | NaN

text \<open>\<^verbatim>\<open>x > y\<close>: every comparison with NaN is false.\<close>

fun py_gt :: "pyfloat \<Rightarrow> pyfloat \<Rightarrow> bool" where
  "py_gt (Fin a) (Fin b) = (b < a)"
| "py_gt (Fin a) NInf = True"
| "py_gt PInf (Fin b) = True"
| "py_gt PInf NInf = True"
| "py_gt x y = False"


text \<open>\<^verbatim>\<open>x / y\<close>: \<open>None\<close> is ZeroDivisionError.\<close>

fun py_div :: "pyfloat \<Rightarrow> pyfloat \<Rightarrow> pyfloat option" where
  "py_div x (Fin b) =
     (if b = 0 then None
      else Some (case x of
                   Fin a \<Rightarrow> Fin (a / b)
                 | PInf \<Rightarrow> if 0 < b then PInf else NInf
                 | NInf \<Rightarrow> if 0 < b then NInf else PInf
                 | NaN \<Rightarrow> NaN))"
| "py_div (Fin a) PInf = Some (Fin 0)"
| "py_div (Fin a) NInf = Some (Fin 0)"
| "py_div x y = Some NaN"

text \<open>\<^verbatim>\<open>x * y\<close>.\<close>

fun py_mul :: "pyfloat \<Rightarrow> pyfloat \<Rightarrow> pyfloat" where
  "py_mul (Fin a) (Fin b) = Fin (a * b)"
| "py_mul NaN y = NaN"
| "py_mul x NaN = NaN"
| "py_mul (Fin a) y =
     (if a = 0 then NaN else if (0 < a) = (y = PInf) then PInf else NInf)"
| "py_mul x (Fin b) =
     (if b = 0 then NaN else if (0 < b) = (x = PInf) then PInf else NInf)"
| "py_mul x y = (if x = y then PInf else NInf)"

text \<open>
  \<^verbatim>\<open>round(x, 2)\<close>: to the nearest multiple of 1/100, a tie going to the even
  multiple; an infinity and NaN are returned as they are.
\<close>

definition round_half_even :: "rat \<Rightarrow> int" where
  "round_half_even x =
     (let f = \<lfloor>x\<rfloor>; d = x - of_int f
      in if d < 1 / 2 then f else if 1 / 2 < d then f + 1
         else if even f then f else f + 1)"

fun py_round2 :: "pyfloat \<Rightarrow> pyfloat" where
  "py_round2 (Fin a) = Fin (of_int (round_half_even (a * 100)) / 100)"
| "py_round2 x = x"

text \<open>
  \<^verbatim>\<open>max(xs)\<close>: the first item is the running maximum, replaced by each later item
  that compares greater; \<open>None\<close> is the ValueError of an empty sequence.
\<close>

fun py_max :: "pyfloat list \<Rightarrow> pyfloat option" where
  "py_max [] = None"
| "py_max (x # xs) = Some (foldl (\<lambda>m y. if py_gt y m then y else m) x xs)"

text \<open>\<^verbatim>\<open>int(ds)\<close> for a string of decimal digits.\<close>

definition digit_value :: "char \<Rightarrow> nat" where
  "digit_value c =
     (case map_of (zip ''0123456789'' [0, 1, 2, 3, 4, 5, 6, 7, 8, 9]) c of
        None \<Rightarrow> 0
      | Some n \<Rightarrow> n)"

definition int_of_digits :: "string \<Rightarrow> nat" where
  "int_of_digits ds = foldl (\<lambda>n c. 10 * n + digit_value c) 0 ds"

text \<open>
  \<^verbatim>\<open>float(s)\<close>, with \<open>None\<close> for ValueError.  The builtin skips the whitespace
  \<open>float_space\<close> at both ends, accepts an underscore between two digits, then reads
  an optional sign followed by \<^verbatim>\<open>inf\<close>, \<^verbatim>\<open>infinity\<close> or \<^verbatim>\<open>nan\<close> in any case, or by a
  decimal number: digits with an optional point (at least one digit in all) and an
  optional exponent.
\<close>

definition float_space :: "char \<Rightarrow> bool" where
  "float_space c = (c \<in> set [CHR 0x09, CHR 0x0A, CHR 0x0B, CHR 0x0C, CHR 0x0D, CHR 0x20])"

fun drop_underscores :: "char \<Rightarrow> string \<Rightarrow> string option" where
  "drop_underscores prev [] = (if prev = CHR ''_'' then None else Some [])"
| "drop_underscores prev (c # cs) =
     (if c = CHR ''_'' then
        (if isdigit prev then drop_underscores c cs else None)
      else if prev = CHR ''_'' \<and> \<not> isdigit c then None
      else map_option ((#) c) (drop_underscores c cs))"

definition split_sign :: "string \<Rightarrow> bool \<times> string" where
  "split_sign s =
     (case s of
        [] \<Rightarrow> (False, [])
      | c # cs \<Rightarrow> if c = CHR ''-'' then (True, cs) else if c = CHR ''+'' then (False, cs)
                 else (False, c # cs))"

definition scale10 :: "rat \<Rightarrow> int \<Rightarrow> rat" where
  "scale10 x e = (if 0 \<le> e then x * 10 ^ nat e else x / 10 ^ nat (- e))"

definition parse_exponent :: "string \<Rightarrow> int option" where
  "parse_exponent s =
     (case s of
        [] \<Rightarrow> Some 0
      | c # cs \<Rightarrow>
          if c = CHR ''e'' \<or> c = CHR ''E'' then
            (let (neg, ds) = split_sign cs in
             if ds \<noteq> [] \<and> list_all isdigit ds
             then Some (if neg then - int (int_of_digits ds) else int (int_of_digits ds))
             else None)
          else None)"

definition parse_decimal :: "string \<Rightarrow> rat option" where
  "parse_decimal s =
     (let ip = takeWhile isdigit s; r1 = dropWhile isdigit s;
          has_point = (r1 \<noteq> [] \<and> hd r1 = CHR ''.'');
          fp = (if has_point then takeWhile isdigit (tl r1) else []);
          r2 = (if has_point then dropWhile isdigit (tl r1) else r1)
      in if ip = [] \<and> fp = [] then None
         else (case parse_exponent r2 of
                 None \<Rightarrow> None
               | Some e \<Rightarrow>
                   Some (scale10 (of_nat (int_of_digits (ip @ fp))) (e - int (length fp)))))"

definition py_float :: "string \<Rightarrow> pyfloat option" where
  "py_float s =
     (let t = rev (dropWhile float_space (rev (dropWhile float_space s))) in
      case (if CHR ''_'' \<in> set t then drop_underscores (CHR 0x00) t else Some t) of
        None \<Rightarrow> None
      | Some u \<Rightarrow>
          (let (neg, v) = split_sign u; w = lower v in
           if w = ''inf'' \<or> w = ''infinity'' then Some (if neg then NInf else PInf)
           else if w = ''nan'' then Some NaN
           else (case parse_decimal v of
                   None \<Rightarrow> None
                 | Some q \<Rightarrow> Some (Fin (if neg then - q else q)))))"

section \<open>Format conversion (pipeline.py)\<close>

subsection \<open>Durations\<close>

text \<open>The patterns \<^verbatim>\<open>(\d+)H\<close> and \<^verbatim>\<open>(\d+)M\<close>.\<close>

definition hours_re :: "re list" where
  "hours_re = [Grp 1 [Plus isdigit], Lit (CHR ''H'')]"

definition mins_re :: "re list" where
  "mins_re = [Grp 1 [Plus isdigit], Lit (CHR ''M'')]"

text \<open>
  \<^verbatim>\<open>parse_iso_duration_minutes\<close>.  \<^verbatim>\<open>int\<close> is modelled without the interpreter's
  limit on the number of digits it converts.
\<close>

definition parse_iso_duration_minutes :: "string \<Rightarrow> nat" where
  "parse_iso_duration_minutes iso_str =
     (if iso_str = [] then 0
      else
        let hours = re_search hours_re iso_str;
            mins = re_search mins_re iso_str;
            total = 0;
            total = (case hours of
                       None \<Rightarrow> total
                     | Some g \<Rightarrow> total + int_of_digits (re_group g 1) * 60);
            total = (case mins of
                       None \<Rightarrow> total
                     | Some g \<Rightarrow> total + int_of_digits (re_group g 1))
        in total)"

subsection \<open>Amounts\<close>

lemma startswith_iff: "startswith s p \<longleftrightarrow> (\<exists>t. s = p @ t)"
  by (induction s p rule: startswith.induct) auto

lemma str_partition_Some:
  "str_partition sep s = Some (a, b) \<Longrightarrow> s = a @ sep @ b"
proof (induction s arbitrary: a)
  case Nil
  then show ?case by (simp split: if_splits)
next
  case (Cons c cs)
  show ?case
  proof (cases "startswith (c # cs) sep")
    case True
    then obtain t where t: "c # cs = sep @ t" by (auto simp: startswith_iff)
    from True Cons.prems have "a = []" and "b = drop (length sep) (c # cs)" by simp_all
    with t show ?thesis by simp
  next
    case False
    with Cons.prems obtain a' where "str_partition sep cs = Some (a', b)" "a = c # a'"
      by (auto split: option.splits)
    with Cons.IH show ?thesis by simp
  qed
qed

lemma str_partition_None:
  "str_partition sep s = None \<Longrightarrow> s \<noteq> a @ sep @ b"
proof (induction s arbitrary: a)
  case Nil
  then show ?case by (simp split: if_splits)
next
  case (Cons c cs)
  then have ns: "\<not> startswith (c # cs) sep" and rec: "str_partition sep cs = None"
    by (auto split: if_splits option.splits)
  show ?case
  proof (cases a)
    case Nil
    with ns show ?thesis by (auto simp: startswith_iff)
  next
    case (Cons x a')
    with Cons.IH [OF rec, of a'] show ?thesis by auto
  qed
qed

lemma contains_iff: "contains sep s \<longleftrightarrow> (\<exists>a b. s = a @ sep @ b)"
proof
  assume "contains sep s"
  then obtain a b where "str_partition sep s = Some (a, b)"
    by (auto simp: contains_def)
  then show "\<exists>a b. s = a @ sep @ b" using str_partition_Some by blast
next
  assume "\<exists>a b. s = a @ sep @ b"
  then obtain a b where "s = a @ sep @ b" by blast
  then have "str_partition sep s \<noteq> None"
    using str_partition_None [of sep s a b] by blast
  then show "contains sep s" by (simp add: contains_def)
qed

lemma str_partition_first:
  "str_partition sep s = Some (a, b) \<Longrightarrow> sep \<noteq> [] \<Longrightarrow> \<not> contains sep a"
proof (induction s arbitrary: a)
  case Nil
  then show ?case by (simp split: if_splits)
next
  case (Cons c cs)
  show ?case
  proof (cases "startswith (c # cs) sep")
    case True
    with Cons.prems show ?thesis by (auto simp: contains_iff)
  next
    case False
    with Cons.prems obtain a' where a': "str_partition sep cs = Some (a', b)" "a = c # a'"
      by (auto split: option.splits)
    have nc: "\<not> contains sep a'" using Cons.IH [OF a'(1) Cons.prems(2)] .
    have cs: "cs = a' @ sep @ b" using str_partition_Some [OF a'(1)] .
    show ?thesis
    proof
      assume "contains sep a"
      then obtain x y where xy: "c # a' = x @ sep @ y" using a'(2) by (auto simp: contains_iff)
      show False
      proof (cases x)
        case Nil
        with xy cs have "c # cs = sep @ (y @ sep @ b)"
          by (metis append.assoc append_Cons append_Nil)
        with False show False by (auto simp: startswith_iff)
      next
        case (Cons x1 x')
        with xy have "a' = x' @ sep @ y" by simp
        with nc show False by (auto simp: contains_iff)
      qed
    qed
  qed
qed

lemma str_split_no_sep:
  "p \<in> set (str_split sep s) \<Longrightarrow> sep \<noteq> [] \<Longrightarrow> \<not> contains sep p"
proof (induction sep s rule: str_split.induct)
  case (1 sep s)
  show ?case
  proof (cases "str_partition sep s")
    case None
    with "1.prems" show ?thesis by (simp add: str_split.simps contains_def)
  next
    case (Some ab)
    obtain a b where ab: "ab = (a, b)" by (cases ab)
    from "1.prems" Some ab have "p = a \<or> p \<in> set (str_split sep b)"
      by (simp add: str_split.simps)
    then show ?thesis
    proof
      assume "p = a"
      with Some ab "1.prems"(2) show ?thesis using str_partition_first by blast
    next
      assume "p \<in> set (str_split sep b)"
      with "1.IH" [OF Some ab [symmetric] "1.prems"(2)] "1.prems"(2) show ?thesis by blast
    qed
  qed
qed

lemma lstrip_suffix: "\<exists>w. s = w @ lstrip s"
  unfolding lstrip_def by (metis takeWhile_dropWhile_id)

lemma rstrip_prefix: "\<exists>w. s = rstrip s @ w"
proof -
  have "rev s = takeWhile isspace (rev s) @ dropWhile isspace (rev s)" by simp
  then have "s = rev (dropWhile isspace (rev s)) @ rev (takeWhile isspace (rev s))"
    by (metis rev_append rev_rev_ident)
  then show ?thesis unfolding rstrip_def by blast
qed

lemma strip_infix: "\<exists>u w. s = u @ strip s @ w"
proof -
  obtain u where u: "s = u @ lstrip s" using lstrip_suffix by blast
  obtain w where w: "lstrip s = rstrip (lstrip s) @ w" using rstrip_prefix by blast
  from u w have "s = u @ strip s @ w" by (simp add: strip_def)
  then show ?thesis by blast
qed

lemma contains_strip: "contains sep (strip s) \<Longrightarrow> contains sep s"
proof -
  assume "contains sep (strip s)"
  then obtain a b where ab: "strip s = a @ sep @ b" by (auto simp: contains_iff)
  obtain u w where "s = u @ strip s @ w" using strip_infix by blast
  with ab have "s = (u @ a) @ sep @ (b @ w)" by simp
  then show ?thesis unfolding contains_iff by blast
qed

text \<open>
  \<^verbatim>\<open>_parse_amount\<close>.  The range branch calls the function on each part of the split;
  a part holds no \<^verbatim>\<open>-\<close>, so the recursion is one level deep (the termination proof)
  and the \<^verbatim>\<open>except\<close> of that branch only ever sees the ValueError of \<^verbatim>\<open>max\<close> on
  an empty sequence.  In the fraction branch the unpacking \<^verbatim>\<open>num, den = ...\<close> raises
  ValueError unless the split has two parts; that, the ValueError of \<^verbatim>\<open>float\<close> and
  ZeroDivisionError all return 0.
\<close>

function parse_amount :: "string \<Rightarrow> pyfloat" where
  "parse_amount s0 =
     (let s = strip s0 in
      if contains ''-'' s then
        (case py_max (map parse_amount (str_split ''-'' s)) of
           None \<Rightarrow> Fin 0
         | Some m \<Rightarrow> m)
      else if contains ''/'' s then
        (case str_split ''/'' s of
           [num, den] \<Rightarrow>
             (case py_float (strip num) of
                None \<Rightarrow> Fin 0
              | Some x \<Rightarrow>
                  (case py_float (strip den) of
                     None \<Rightarrow> Fin 0
                   | Some y \<Rightarrow> (case py_div x y of None \<Rightarrow> Fin 0 | Some q \<Rightarrow> q)))
         | _ \<Rightarrow> Fin 0)
      else
        (case py_float s of None \<Rightarrow> Fin 0 | Some x \<Rightarrow> x))"
  by pat_completeness auto
termination
proof (relation "measure (\<lambda>s. if contains ''-'' (strip s) then 1 else 0)")
  show "wf (measure (\<lambda>s. if contains ''-'' (strip s) then 1 else 0))" by simp
next
  fix s0 x p
  assume "x = strip s0" "contains ''-'' x" "p \<in> set (str_split ''-'' x)"
  then have "\<not> contains ''-'' p" "contains ''-'' (strip s0)"
    using str_split_no_sep by auto
  then show "(p, s0) \<in> measure (\<lambda>s. if contains ''-'' (strip s) then 1 else 0)"
    using contains_strip by auto
qed

declare parse_amount.simps [simp del]




subsection \<open>Ingredient lines\<close>

text \<open>
  The result of \<^verbatim>\<open>parse_ingredient_string\<close> is a dictionary with the keys
  \<^verbatim>\<open>amount\<close>, \<^verbatim>\<open>unit\<close> (\<^verbatim>\<open>None\<close> or \<^verbatim>\<open>{"name": unit}\<close>), \<^verbatim>\<open>food\<close>
  (\<^verbatim>\<open>{"name": food}\<close>), \<^verbatim>\<open>note\<close> and, in the last case only, \<^verbatim>\<open>no_amount\<close>.
\<close>

record ingredient =
  amount :: pyfloat
  unit :: "string option"
  food :: string
  ing_note :: string
  no_amount :: bool

definition known_units :: "string list" where
  "known_units =
     [''g'', ''kg'', ''mg'', ''ml'', ''l'', ''dl'', ''cl'',
      ''tsp'', ''tbsp'', ''cup'', ''cups'', ''oz'', ''lb'', ''lbs'',
      ''clove'', ''cloves'', ''piece'', ''pieces'', ''pinch'',
      ''bunch'', ''can'', ''cans'', ''slice'', ''slices'',
      ''sprig'', ''sprigs'', ''head'', ''heads'', ''stalk'', ''stalks'',
      ''handful'', ''dash'', ''drop'', ''drops'', ''packet'', ''packets'',
      ''sheet'', ''sheets'', ''stick'', ''sticks'', ''whole'',
      ''grams'', ''gram'']"

text \<open>
  The amount pattern \<^verbatim>\<open>[\d]+(?:[./][\d]+)?(?:\s*-\s*[\d]+(?:[./][\d]+)?)?\<close>, and the
  two patterns built on it:
  \<^verbatim>\<open>^(amount)\s+([a-zA-Z]+(?:\s[a-zA-Z]+)?)\s+(.+)$\<close> and \<^verbatim>\<open>^(amount)\s+(.+)$\<close>.
\<close>

definition dot_or_slash :: "char \<Rightarrow> bool" where
  "dot_or_slash c = (c = CHR ''.'' \<or> c = CHR ''/'')"

definition not_newline :: "char \<Rightarrow> bool" where
  "not_newline c = (c \<noteq> CHR 0x0A)"

definition amount_re :: "re list" where
  "amount_re =
     [Plus isdigit,
      Opt [Cls dot_or_slash, Plus isdigit],
      Opt [Star isspace, Lit (CHR ''-''), Star isspace, Plus isdigit,
           Opt [Cls dot_or_slash, Plus isdigit]]]"

definition ingredient_re :: "re list" where
  "ingredient_re =
     [Grp 1 amount_re, Plus isspace,
      Grp 2 [Plus isalpha, Opt [Cls isspace, Plus isalpha]], Plus isspace,
      Grp 3 [Plus not_newline], Eol]"

definition ingredient_re2 :: "re list" where
  "ingredient_re2 = [Grp 1 amount_re, Plus isspace, Grp 2 [Plus not_newline], Eol]"

definition parse_ingredient_string :: "string \<Rightarrow> ingredient" where
  "parse_ingredient_string s0 =
     (let s1 = strip s0;
          (s, note) = (case str_partition '', '' s1 of
                         None \<Rightarrow> (s1, [])
                       | Some (a, b) \<Rightarrow> (a, b))
      in case re_match ingredient_re s of
           Some m \<Rightarrow>
             (let amount_str = re_group m 1; unit = re_group m 2; food = re_group m 3;
                  amount = parse_amount amount_str
              in if lower unit \<in> set known_units then
                   \<lparr>amount = amount, unit = Some unit, food = strip food,
                    ing_note = note, no_amount = False\<rparr>
                 else
                   \<lparr>amount = amount, unit = None, food = strip (unit @ '' '' @ food),
                    ing_note = note, no_amount = False\<rparr>)
         | None \<Rightarrow>
             (case re_match ingredient_re2 s of
                Some m2 \<Rightarrow>
                  \<lparr>amount = parse_amount (re_group m2 1), unit = None,
                   food = strip (re_group m2 2), ing_note = note, no_amount = False\<rparr>
              | None \<Rightarrow>
                  \<lparr>amount = Fin 0, unit = None, food = s, ing_note = note,
                   no_amount = True\<rparr>))"

subsection \<open>Instruction sections\<close>

text \<open>
  \<^verbatim>\<open>_split_instruction_sections\<close>.  \<open>section_of\<close> is the body of the loop for a
  part that is not blank; \<open>collect_sections\<close> is the loop, with the list built so far.
\<close>

definition section_of :: "string \<Rightarrow> string \<times> string" where
  "section_of part =
     (case str_partition [CHR 0x0A] part of
        None \<Rightarrow> (strip part, [])
      | Some (line0, line1) \<Rightarrow> (strip line0, strip line1))"

fun collect_sections :: "string list \<Rightarrow> (string \<times> string) list \<Rightarrow> (string \<times> string) list" where
  "collect_sections [] sections = sections"
| "collect_sections (part # parts) sections =
     (let part = strip part
      in if part = [] then collect_sections parts sections
         else collect_sections parts (sections @ [section_of part]))"

definition split_instruction_sections :: "string \<Rightarrow> (string \<times> string) list" where
  "split_instruction_sections text =
     (if text = [] then []
      else
        let parts = str_split ''## '' text;
            sections = collect_sections parts []
        in if sections = [] \<and> strip text \<noteq> []
           then sections @ [(''Instructions'', strip text)]
           else sections)"

subsection \<open>The conversion to the Tandoor format\<close>

text \<open>
  The JSON-LD recipe is a dictionary read with \<^verbatim>\<open>recipe.get(key, default)\<close>; a field is
  \<open>None\<close> when the key is absent.  The fields have the types of a structured recipe:
  strings, a list of ingredient strings, a list of keyword strings, and a list of
  instruction steps, each a dictionary with an optional \<^verbatim>\<open>text\<close>.  \<open>recipeYield\<close> holds
  \<^verbatim>\<open>str(servings_raw)\<close>.  The author is a dictionary with an optional \<^verbatim>\<open>name\<close>, or
  another value given by its \<^verbatim>\<open>str\<close>.
\<close>

datatype author = Author_dict "string option" | Author_other string

record recipe =
  ld_name :: "string option"
  ld_description :: "string option"
  author :: "author option"
  url :: "string option"
  recipeCategory :: "string option"
  recipeCuisine :: "string option"
  recipeYield :: "string option"
  prepTime :: "string option"
  cookTime :: "string option"
  recipeIngredient :: "string list option"
  recipeInstructions :: "string option list option"
  ld_keywords :: "string list option"

record step =
  step_name :: string
  instruction :: string
  ingredients :: "ingredient list"
  show_ingredients_table :: bool

record tandoor_recipe =
  name :: string
  description :: string
  working_time :: nat
  waiting_time :: nat
  servings :: int
  servings_text :: string
  source_url :: string
  internal :: bool
  keyword_names :: "string list"
  steps :: "step list"

text \<open>\<^verbatim>\<open>d.get(key, default)\<close>.\<close>

definition get :: "'a option \<Rightarrow> 'a \<Rightarrow> 'a" where
  "get field dflt = (case field of None \<Rightarrow> dflt | Some v \<Rightarrow> v)"

text \<open>The pattern \<^verbatim>\<open>(\d+)\<close>.\<close>

definition digits_re :: "re list" where
  "digits_re = [Grp 1 [Plus isdigit]]"

text \<open>
  \<open>truthy\<close> is the truth value Python gives to \<^verbatim>\<open>servings_override\<close>: false for
  \<^verbatim>\<open>None\<close> and for 0.  \<open>instruction_text\<close> and \<open>original_servings\<close> are the local
  variables of these names in \<^verbatim>\<open>jsonld_to_tandoor\<close>, as functions of the recipe.
\<close>

definition truthy :: "int option \<Rightarrow> bool" where
  "truthy v = (case v of None \<Rightarrow> False | Some n \<Rightarrow> n \<noteq> 0)"

definition instruction_text :: "recipe \<Rightarrow> string" where
  "instruction_text recipe =
     (let steps_ld = get (recipeInstructions recipe) []
      in case steps_ld of [] \<Rightarrow> [] | st # _ \<Rightarrow> get st [])"

definition original_servings :: "recipe \<Rightarrow> nat" where
  "original_servings recipe =
     (let servings_raw = get (recipeYield recipe) ''4'';
          servings_match = re_search digits_re servings_raw
      in case servings_match of
           None \<Rightarrow> 4
         | Some m \<Rightarrow> int_of_digits (re_group m 1))"

text \<open>\<^verbatim>\<open>jsonld_to_tandoor\<close>.\<close>

definition jsonld_to_tandoor :: "recipe \<Rightarrow> int option \<Rightarrow> tandoor_recipe" where
  "jsonld_to_tandoor recipe servings_override =
     (let ingredients = map parse_ingredient_string (get (recipeIngredient recipe) []);
          text = instruction_text recipe;
          prep = parse_iso_duration_minutes (get (prepTime recipe) []);
          cook = parse_iso_duration_minutes (get (cookTime recipe) []);
          original = original_servings recipe;
          target_servings = (if truthy servings_override then get servings_override 0
                             else int original);
          ingredients =
            (if truthy servings_override \<and> 0 < original
                \<and> get servings_override 0 \<noteq> int original
             then
               let scale = Fin (of_int (get servings_override 0) / of_nat original)
               in map (\<lambda>ing. if py_gt (amount ing) (Fin 0)
                             then ing\<lparr>amount := py_round2 (py_mul (amount ing) scale)\<rparr>
                             else ing) ingredients
             else ingredients);
          kws = [strip kw. kw \<leftarrow> get (ld_keywords recipe) [], strip kw \<noteq> []];
          kws = kws @
            [strip val. val \<leftarrow> [get (recipeCuisine recipe) [], get (recipeCategory recipe) []],
                        val \<noteq> [] \<and> strip val \<noteq> []];
          desc = get (ld_description recipe) [];
          author_name = (case get (author recipe) (Author_dict None) of
                           Author_dict n \<Rightarrow> get n []
                         | Author_other s \<Rightarrow> s);
          desc = (if author_name \<noteq> [] \<and> \<not> contains author_name desc
                  then (if desc \<noteq> [] then ''By '' @ author_name @ ''. '' @ desc
                        else ''By '' @ author_name)
                  else desc)
      in \<lparr>name = get (ld_name recipe) ''Untitled Recipe'',
          description = desc,
          working_time = prep,
          waiting_time = cook,
          servings = target_servings,
          servings_text = ''servings'',
          source_url = get (url recipe) [],
          internal = True,
          keyword_names = kws,
          steps =
            [\<lparr>step_name = [], instruction = [], ingredients = ingredients,
              show_ingredients_table = True\<rparr>]
            @ [\<lparr>step_name = header, instruction = body, ingredients = [],
                show_ingredients_table = False\<rparr>.
               (header, body) \<leftarrow> split_instruction_sections text]\<rparr>)"

text \<open>The ingredient list of the first step of the converted recipe.\<close>

definition first_ingredients :: "recipe \<Rightarrow> int option \<Rightarrow> ingredient list" where
  "first_ingredients recipe ov = ingredients (hd (steps (jsonld_to_tandoor recipe ov)))"

text \<open>A recipe as the extraction step delivers it, for the worked examples.\<close>

definition soup :: recipe where
  "soup =
     \<lparr>ld_name = Some ''Soup'', ld_description = Some ''Warm.'',
      author = Some (Author_dict (Some ''Ann'')), url = Some ''https://youtu.be/abcdefghijk'',
      recipeCategory = Some ''Dinner'', recipeCuisine = Some ''Turkish'',
      recipeYield = Some ''4 servings'', prepTime = Some ''PT10M'', cookTime = Some ''PT1H30M'',
      recipeIngredient = Some [''200 g flour, sifted'', ''salt'', ''2 large eggs''],
      recipeInstructions = Some [Some ''## A\<newline>body1\<newline>\<newline>## B\<newline>body2''],
      ld_keywords = Some [''soup'']\<rparr>"

section \<open>Duplicate detection (pipeline.py)\<close>

text \<open>
  An external call either returns a value or raises an exception that is not a
  PipelineError (no library raises the exception class of this repository); \<open>Inl\<close>
  carries the \<^verbatim>\<open>str\<close> of such an exception.
\<close>

type_synonym 'a attempt = "string + 'a"

record PipelineConfig =
  tandoor_url :: string
  tandoor_api_key :: string
  whisper_model :: string
  language :: string

text \<open>
  The search request of \<^verbatim>\<open>check_duplicate\<close> and what the publish target answers.
  A result of the page is a dictionary with an optional \<^verbatim>\<open>name\<close> and an optional
  \<^verbatim>\<open>id\<close>; \<open>search_json\<close> is \<^verbatim>\<open>resp.json()\<close>, which can raise, and the optional list in
  it is the value of the key \<^verbatim>\<open>results\<close>.
\<close>

record search_request =
  request_url :: string
  authorization :: string
  query :: string
  page_size :: nat

record search_hit =
  hit_name :: "string option"
  hit_id :: "int option"

record search_response =
  search_status :: nat
  search_json :: "search_hit list option attempt"

text \<open>
  The test \<^verbatim>\<open>r.get("name", "").strip().lower() == recipe_name.strip().lower()\<close>, and
  the loop over the results with its early \<^verbatim>\<open>return\<close>.
\<close>

definition same_name :: "string \<Rightarrow> search_hit \<Rightarrow> bool" where
  "same_name recipe_name r = (lower (strip (get (hit_name r) [])) = lower (strip recipe_name))"

fun first_same_name :: "string \<Rightarrow> search_hit list \<Rightarrow> int option" where
  "first_same_name recipe_name [] = None"
| "first_same_name recipe_name (r # results) =
     (if same_name recipe_name r then hit_id r
      else first_same_name recipe_name results)"

text \<open>
  \<^verbatim>\<open>check_duplicate\<close>; \<open>http_get\<close> is \<^verbatim>\<open>requests.get\<close> against the publish target.
  Every exception raised inside the \<^verbatim>\<open>try\<close> ends in \<^verbatim>\<open>return None\<close>.
\<close>

definition duplicate_query :: "string \<Rightarrow> PipelineConfig \<Rightarrow> search_request" where
  "duplicate_query recipe_name config =
     \<lparr>request_url = tandoor_url config @ ''/api/recipe/'',
      authorization = ''Bearer '' @ tandoor_api_key config,
      query = recipe_name, page_size = 5\<rparr>"

definition check_duplicate ::
  "string \<Rightarrow> PipelineConfig \<Rightarrow> (search_request \<Rightarrow> search_response attempt) \<Rightarrow> int option" where
  "check_duplicate recipe_name config http_get =
     (case http_get (duplicate_query recipe_name config) of
        Inl e \<Rightarrow> None
      | Inr resp \<Rightarrow>
          if search_status resp = 200 then
            (case search_json resp of
               Inl e \<Rightarrow> None
             | Inr body \<Rightarrow> first_same_name recipe_name (get body []))
          else None)"

section \<open>The pipeline orchestrator (pipeline.py)\<close>

text \<open>
  The exceptions below \<^verbatim>\<open>Exception\<close>: the PipelineError of this repository with its
  message, and any other one with its \<^verbatim>\<open>str\<close>.  A function of the repository returns
  a value or raises: \<open>Inl\<close> is the exception leaving the function.
\<close>

datatype exn = PipelineError string | OtherError string

type_synonym 'a result = "exn + 'a"

definition bind :: "'a result \<Rightarrow> ('a \<Rightarrow> 'b result) \<Rightarrow> 'b result" where
  "bind r f = (case r of Inl e \<Rightarrow> Inl e | Inr v \<Rightarrow> f v)"

definition lift :: "'a attempt \<Rightarrow> 'a result" where
  "lift a = (case a of Inl msg \<Rightarrow> Inl (OtherError msg) | Inr v \<Rightarrow> Inr v)"

text \<open>\<^verbatim>\<open>str(n)\<close> for an integer, \<^verbatim>\<open>s.endswith(p)\<close> and \<^verbatim>\<open>s.rsplit(sep, 1)[0]\<close>.\<close>

fun str_nat :: "nat \<Rightarrow> string" where
  "str_nat n =
     (if n < 10 then [''0123456789'' ! n]
      else str_nat (n div 10) @ [''0123456789'' ! (n mod 10)])"

declare str_nat.simps [simp del]

definition str_int :: "int \<Rightarrow> string" where
  "str_int i = (if i < 0 then ''-'' @ str_nat (nat (- i)) else str_nat (nat i))"

definition endswith :: "string \<Rightarrow> string \<Rightarrow> bool" where
  "endswith s p = startswith (rev s) (rev p)"

definition rsplit1_head :: "string \<Rightarrow> string \<Rightarrow> string" where
  "rsplit1_head sep s =
     (case str_partition (rev sep) (rev s) of
        None \<Rightarrow> s
      | Some (after, before) \<Rightarrow> rev before)"

text \<open>
  What the pipeline meets outside the repository: the temporary directory, the
  transcript cache files, the \<^verbatim>\<open>yt-dlp\<close> process (return code and stderr) and the audio
  file it leaves, Whisper, the \<^verbatim>\<open>claude\<close> process (return code, stdout, stderr),
  \<^verbatim>\<open>json.loads\<close> (the inner \<open>Inl\<close> is the text of a JSONDecodeError), the thumbnail
  download, \<^verbatim>\<open>shutil.copy2\<close>, and the POST to the publish target.
\<close>

datatype json = Json_object recipe | Json_other string

record post_response =
  post_status :: nat
  post_json :: "(string \<times> int option) attempt"
  post_text :: string

record world =
  make_tmp_dir :: "string attempt"
  cleanup_tmp_dir :: "unit attempt"
  load_cached_transcript :: "string \<Rightarrow> string option attempt"
  save_transcript_cache :: "string \<Rightarrow> string \<Rightarrow> unit attempt"
  run_ytdlp :: "string \<Rightarrow> string \<Rightarrow> (int \<times> string) attempt"
  find_audio :: "string \<Rightarrow> string option attempt"
  transcribe_audio :: "string \<Rightarrow> string \<Rightarrow> string \<Rightarrow> string attempt"
  run_claude :: "string \<Rightarrow> string \<Rightarrow> (int \<times> string \<times> string) attempt"
  json_loads :: "string \<Rightarrow> (string + json) attempt"
  download_thumbnail :: "string \<Rightarrow> string \<Rightarrow> string option attempt"
  persistent_path :: "string \<Rightarrow> string"
  copy2 :: "string \<Rightarrow> string \<Rightarrow> unit attempt"
  http_post :: "string \<Rightarrow> tandoor_recipe \<Rightarrow> post_response attempt"

text \<open>\<^verbatim>\<open>download_audio\<close>.\<close>

definition download_audio :: "world \<Rightarrow> string \<Rightarrow> string \<Rightarrow> string result" where
  "download_audio w video_url output_dir =
     bind (lift (run_ytdlp w video_url output_dir)) (\<lambda>(returncode, stderr).
       if returncode \<noteq> 0 then Inl (PipelineError (''yt-dlp failed: '' @ strip stderr))
       else bind (lift (find_audio w output_dir)) (\<lambda>found.
         case found of
           Some f \<Rightarrow> Inr f
         | None \<Rightarrow> Inl (PipelineError ''No audio file found after download.'')))"

text \<open>
  \<^verbatim>\<open>extract_recipe\<close>.  \<^verbatim>\<open>split("\n", 1)[1]\<close> raises IndexError when the fenced
  answer has no line feed.
\<close>

definition extract_recipe :: "world \<Rightarrow> string \<Rightarrow> string \<Rightarrow> json result" where
  "extract_recipe w transcript src_url =
     bind (lift (run_claude w transcript src_url)) (\<lambda>(returncode, stdout, stderr).
       if returncode \<noteq> 0 then Inl (PipelineError (''Claude Code error: '' @ strip stderr))
       else
         bind (let response_text = strip stdout
               in if startswith response_text ''```'' then
                    (case str_partition [CHR 0x0A] response_text of
                       None \<Rightarrow> Inl (OtherError ''list index out of range'')
                     | Some (a, b) \<Rightarrow> Inr b)
                  else Inr response_text) (\<lambda>response_text.
           let response_text = (if endswith response_text ''```''
                                then rsplit1_head ''```'' response_text else response_text);
               response_text = strip response_text
           in bind (lift (json_loads w response_text)) (\<lambda>parsed.
                case parsed of
                  Inl e \<Rightarrow>
                    Inl (PipelineError (''Invalid JSON from Claude: '' @ e @ [CHR 0x0A]
                                         @ ''Raw: '' @ take 500 response_text))
                | Inr recipe \<Rightarrow> Inr recipe)))"

text \<open>
  \<^verbatim>\<open>publish_to_tandoor\<close>, as \<^verbatim>\<open>process_video\<close> calls it (no servings override).
  Saving the fallback file and uploading the thumbnail swallow their own exceptions
  and leave no trace in the result.
\<close>

definition publish_to_tandoor ::
  "world \<Rightarrow> recipe \<Rightarrow> PipelineConfig \<Rightarrow> string option \<Rightarrow> (int option \<times> string) result" where
  "publish_to_tandoor w recipe config thumb_path =
     (let tandoor_recipe = jsonld_to_tandoor recipe None
      in bind (lift (http_post w (tandoor_url config @ ''/api/recipe/'') tandoor_recipe)) (\<lambda>resp.
           if post_status resp \<noteq> 200 \<and> post_status resp \<noteq> 201 then
             (let detail = (case post_json resp of
                              Inl e \<Rightarrow> take 300 (post_text resp)
                            | Inr (text, i) \<Rightarrow> text)
              in Inl (PipelineError (''Tandoor API error (HTTP '' @ str_nat (post_status resp)
                                     @ ''): '' @ detail)))
           else
             bind (lift (post_json resp)) (\<lambda>(text, recipe_id).
               Inr (recipe_id,
                    tandoor_url config @ ''/view/recipe/''
                      @ (case recipe_id of None \<Rightarrow> ''None'' | Some i \<Rightarrow> str_int i)))))"

text \<open>
  The observer callbacks.  A callback is \<open>None\<close> when it is not set; calling it
  returns (\<open>None\<close>) or raises.
\<close>

record PipelineResult =
  success :: bool
  recipe_name :: string
  recipe_url :: string
  thumbnail_path :: string
  error_message :: string
  recipe_data :: "recipe option"

record PipelineCallbacks =
  on_downloading :: "exn option option"
  on_transcribing :: "exn option option"
  on_extracting :: "exn option option"
  on_publishing :: "exn option option"
  on_complete :: "(PipelineResult \<Rightarrow> exn option) option"
  on_error :: "(string \<Rightarrow> exn option) option"

definition no_callbacks :: PipelineCallbacks where
  "no_callbacks =
     \<lparr>on_downloading = None, on_transcribing = None, on_extracting = None,
      on_publishing = None, on_complete = None, on_error = None\<rparr>"

definition call :: "exn option option \<Rightarrow> unit result" where
  "call cb = (case cb of Some (Some e) \<Rightarrow> Inl e | _ \<Rightarrow> Inr ())"

definition call_with :: "('a \<Rightarrow> exn option) option \<Rightarrow> 'a \<Rightarrow> unit result" where
  "call_with cb x =
     (case cb of
        None \<Rightarrow> Inr ()
      | Some f \<Rightarrow> (case f x of None \<Rightarrow> Inr () | Some e \<Rightarrow> Inl e))"

definition as_dict :: "json \<Rightarrow> recipe result" where
  "as_dict j = (case j of Json_object r \<Rightarrow> Inr r | Json_other msg \<Rightarrow> Inl (OtherError msg))"

text \<open>
  The body of the \<^verbatim>\<open>with\<close> block of \<^verbatim>\<open>process_video\<close>.  \<^verbatim>\<open>recipe.get\<close> raises
  AttributeError on a JSON value that is not an object.
\<close>

definition pipeline_body ::
  "world \<Rightarrow> string \<Rightarrow> PipelineConfig \<Rightarrow> PipelineCallbacks \<Rightarrow> bool \<Rightarrow> string
    \<Rightarrow> PipelineResult result" where
  "pipeline_body w video_url config cb no_cache tmp_dir =
     bind (lift (load_cached_transcript w video_url)) (\<lambda>cached.
     bind (if cached \<noteq> None \<and> cached \<noteq> Some [] \<and> \<not> no_cache then Inr (get cached [])
           else
             bind (call (on_downloading cb)) (\<lambda>_.
             bind (download_audio w video_url tmp_dir) (\<lambda>audio_path.
             bind (call (on_transcribing cb)) (\<lambda>_.
             bind (lift (transcribe_audio w audio_path (whisper_model config) (language config)))
               (\<lambda>transcript.
             bind (lift (save_transcript_cache w video_url transcript)) (\<lambda>_.
             Inr transcript)))))) (\<lambda>transcript.
     bind (call (on_extracting cb)) (\<lambda>_.
     bind (extract_recipe w transcript video_url) (\<lambda>extracted.
     bind (as_dict extracted) (\<lambda>recipe.
     bind (lift (download_thumbnail w video_url tmp_dir)) (\<lambda>thumb_path.
     bind (case thumb_path of
             None \<Rightarrow> Inr None
           | Some t \<Rightarrow>
               if t = [] then Inr None
               else bind (lift (copy2 w t (persistent_path w t)))
                      (\<lambda>_. Inr (Some (persistent_path w t)))) (\<lambda>persistent_thumb.
     bind (call (on_publishing cb)) (\<lambda>_.
     bind (publish_to_tandoor w recipe config persistent_thumb) (\<lambda>(recipe_id, recipe_url).
       let result = \<lparr>success = True,
                     recipe_name = get (ld_name recipe) ''Unknown'',
                     recipe_url = recipe_url,
                     thumbnail_path = get persistent_thumb [],
                     error_message = [],
                     recipe_data = Some recipe\<rparr>
       in bind (call_with (on_complete cb) result) (\<lambda>_. Inr result))))))))))"

text \<open>The two \<^verbatim>\<open>except\<close> clauses end alike, with their message.\<close>

definition failed :: "PipelineCallbacks \<Rightarrow> string \<Rightarrow> PipelineResult result" where
  "failed cb error_msg =
     bind (call_with (on_error cb) error_msg) (\<lambda>_.
       Inr \<lparr>success = False, recipe_name = [], recipe_url = [], thumbnail_path = [],
            error_message = error_msg, recipe_data = None\<rparr>)"

text \<open>
  \<^verbatim>\<open>process_video\<close>.  Leaving the \<^verbatim>\<open>with\<close> block removes the temporary directory,
  whether the body returned or raised; an exception of that removal replaces the outcome
  of the body.  \<open>Inl\<close> is an exception that reaches the caller.
\<close>

definition process_video ::
  "world \<Rightarrow> string \<Rightarrow> PipelineConfig \<Rightarrow> PipelineCallbacks option \<Rightarrow> bool
    \<Rightarrow> PipelineResult result" where
  "process_video w video_url config callbacks no_cache =
     (let cb = get callbacks no_callbacks;
          tried =
            bind (lift (make_tmp_dir w)) (\<lambda>tmp_dir.
              let outcome = pipeline_body w video_url config cb no_cache tmp_dir
              in bind (lift (cleanup_tmp_dir w)) (\<lambda>_. outcome))
      in case tried of
           Inr result \<Rightarrow> Inr result
         | Inl (PipelineError msg) \<Rightarrow> failed cb msg
         | Inl (OtherError msg) \<Rightarrow> failed cb (''Unexpected error: '' @ msg))"




section \<open>The job queue of the Telegram bot (bot.py)\<close>

text \<open>
  The bot keeps two process-wide variables: \<^verbatim>\<open>_job_queue\<close>, an
  \<^verbatim>\<open>asyncio.Queue(maxsize=MAX_QUEUE)\<close>, and the flag \<^verbatim>\<open>_processing\<close>.
  A queued job is the triple \<^verbatim>\<open>(url, update, context)\<close>; the chat objects play no
  part in admission, so a job is its URL together with an identifier of the chat
  (the \<^verbatim>\<open>update\<close>) it came from.  The coroutines are modelled as atomic steps on
  this state: what one call does when no other coroutine runs between its
  \<^verbatim>\<open>await\<close> points.
\<close>

type_synonym job = "string \<times> nat"

record bot_state =
  job_queue :: "job list"
  processing :: bool

definition MAX_QUEUE :: nat where
  "MAX_QUEUE = 3"

text \<open>\<^verbatim>\<open>asyncio.Queue.qsize\<close> and \<^verbatim>\<open>asyncio.Queue.full\<close> (for a positive maxsize).\<close>

definition qsize :: "bot_state \<Rightarrow> nat" where
  "qsize s = length (job_queue s)"

definition full :: "bot_state \<Rightarrow> bool" where
  "full s = (MAX_QUEUE \<le> qsize s)"

text \<open>
  The two messages \<^verbatim>\<open>_enqueue\<close> can send with \<^verbatim>\<open>reply_text\<close>:
  \<^verbatim>\<open>"Queue is full (max 3 pending). Try again later."\<close> and
  \<^verbatim>\<open>f"Queued! Position: {qsize + 1}. I'll get to it soon."\<close>.
\<close>

datatype reply = Queue_is_full | Queued_position nat

text \<open>
  \<^verbatim>\<open>_enqueue\<close>: the replies sent, and the state afterwards.  The early
  \<^verbatim>\<open>return\<close> of the full queue leaves the state as it was.
\<close>

definition enqueue :: "job \<Rightarrow> bot_state \<Rightarrow> reply list \<times> bot_state" where
  "enqueue j s =
     (if full s then ([Queue_is_full], s)
      else
        let n = qsize s;
            replies = (if 0 < n \<or> processing s then [Queued_position (n + 1)] else [])
        in (replies, s\<lparr>job_queue := job_queue s @ [j]\<rparr>))"

text \<open>
  \<^verbatim>\<open>_worker\<close>: \<^verbatim>\<open>await _job_queue.get()\<close> takes the oldest job and sets
  \<^verbatim>\<open>_processing\<close>; on an empty queue it waits (\<open>None\<close>: no step).  The
  \<^verbatim>\<open>finally\<close> block clears the flag when the job has ended.
\<close>

definition worker_get :: "bot_state \<Rightarrow> (job \<times> bot_state) option" where
  "worker_get s =
     (case job_queue s of
        [] \<Rightarrow> None
      | j # js \<Rightarrow> Some (j, s\<lparr>job_queue := js, processing := True\<rparr>))"

definition worker_finally :: "bot_state \<Rightarrow> bot_state" where
  "worker_finally s = s\<lparr>processing := False\<rparr>"

definition initial_state :: bot_state where
  "initial_state = \<lparr>job_queue = [], processing = False\<rparr>"

section \<open>Worked examples\<close>

text \<open>
  A configuration, a result page of the publish target, and an outside world in which
  \<^verbatim>\<open>yt-dlp\<close> fails.
\<close>

definition cfg :: PipelineConfig where
  "cfg = \<lparr>tandoor_url = ''http://tandoor'', tandoor_api_key = ''k'',
          whisper_model = ''medium'', language = ''en''\<rparr>"

definition page :: "search_hit list" where
  "page = [\<lparr>hit_name = Some ''Chicken Soup with Rice'', hit_id = Some 3\<rparr>,
           \<lparr>hit_name = Some ''chicken soup'', hit_id = Some 7\<rparr>,
           \<lparr>hit_name = Some ''Chicken soup'', hit_id = Some 9\<rparr>]"

definition quiet_world :: world where
  "quiet_world =
     \<lparr>make_tmp_dir = Inr ''/tmp/x'', cleanup_tmp_dir = Inr (),
      load_cached_transcript = (\<lambda>u. Inr None),
      save_transcript_cache = (\<lambda>u t. Inr ()),
      run_ytdlp = (\<lambda>u d. Inr (1, '' ERROR: unsupported URL '')),
      find_audio = (\<lambda>d. Inr None),
      transcribe_audio = (\<lambda>a m l. Inl ''no model''),
      run_claude = (\<lambda>t u. Inr (0, ''{}'', [])),
      json_loads = (\<lambda>t. Inr (Inr (Json_object soup))),
      download_thumbnail = (\<lambda>u d. Inr None),
      persistent_path = (\<lambda>p. p),
      copy2 = (\<lambda>a b. Inr ()),
      http_post = (\<lambda>u r. Inl ''connection refused'')\<rparr>"

section \<open>Properties of the duration parser\<close>























section \<open>Properties of the amount parser\<close>






lemma rstrip_append:
  "\<not> isspace c \<Longrightarrow> rstrip (u @ c # b) = u @ c # rstrip b"
proof -
  assume c: "\<not> isspace c"
  have "dropWhile isspace (rev b @ c # rev u) = dropWhile isspace (rev b) @ c # rev u"
    using c by (induction "rev b" arbitrary: b) (auto simp: dropWhile_append3)
  then show ?thesis by (simp add: rstrip_def)
qed


lemma lstrip_idem: "lstrip (lstrip s) = lstrip s"
  by (simp add: lstrip_def dropWhile_idem)

lemma rstrip_idem: "rstrip (rstrip s) = rstrip s"
  by (simp add: rstrip_def dropWhile_idem)

lemma lstrip_Cons: "\<not> isspace x \<Longrightarrow> lstrip (x # r) = x # r"
  by (simp add: lstrip_def)

lemma rstrip_Cons: "\<not> isspace x \<Longrightarrow> rstrip (x # r) = x # rstrip r"
  using rstrip_append [of x "[]" r] by simp

lemma rstrip_spaces: "list_all isspace w \<Longrightarrow> rstrip w = []"
  by (simp add: rstrip_def list_all_iff)

lemma lstrip_spaces_append: "list_all isspace w \<Longrightarrow> lstrip (w @ t) = lstrip t"
  by (simp add: lstrip_def list_all_iff dropWhile_append2)

lemma lstrip_rstrip: "lstrip (rstrip s) = rstrip (lstrip s)"
proof (cases "dropWhile isspace s")
  case Nil
  then have all: "list_all isspace s"
    by (simp add: list_all_iff dropWhile_eq_Nil_conv)
  then have r: "rstrip s = []" by (rule rstrip_spaces)
  from Nil have l: "lstrip s = []" by (simp add: lstrip_def)
  show ?thesis unfolding r l by (simp add: lstrip_def rstrip_def)
next
  case (Cons x r)
  then have x: "\<not> isspace x" by (metis hd_dropWhile list.sel(1) list.distinct(1))
  define w where "w = takeWhile isspace s"
  have s: "s = w @ x # r" using Cons by (metis w_def takeWhile_dropWhile_id)
  have w: "list_all isspace w" by (simp add: w_def list_all_iff) (meson set_takeWhileD)
  have "rstrip s = w @ x # rstrip r" unfolding s using x by (rule rstrip_append)
  then have "lstrip (rstrip s) = x # rstrip r"
    using w x by (simp add: lstrip_spaces_append lstrip_Cons)
  moreover have "lstrip s = x # r" using Cons by (simp add: lstrip_def)
  ultimately show ?thesis using x by (simp add: rstrip_Cons)
qed



lemma strip_idem: "strip (strip s) = strip s"
  by (simp add: strip_def lstrip_rstrip rstrip_idem lstrip_idem)















































section \<open>Properties of the conversion\<close>

lemma steps_jsonld_to_tandoor:
  "steps (jsonld_to_tandoor recipe ov) =
     \<lparr>step_name = [], instruction = [],
      ingredients =
        (if truthy ov \<and> 0 < original_servings recipe \<and> get ov 0 \<noteq> int (original_servings recipe)
         then map (\<lambda>ing. if py_gt (amount ing) (Fin 0)
                   then ing\<lparr>amount := py_round2 (py_mul (amount ing)
                          (Fin (of_int (get ov 0) / of_nat (original_servings recipe))))\<rparr>
                   else ing)
                (map parse_ingredient_string (get (recipeIngredient recipe) []))
         else map parse_ingredient_string (get (recipeIngredient recipe) [])),
      show_ingredients_table = True\<rparr>
     # map (\<lambda>(header, body). \<lparr>step_name = header, instruction = body, ingredients = [],
                                  show_ingredients_table = False\<rparr>)
         (split_instruction_sections
            (instruction_text recipe))"
  by (simp add: jsonld_to_tandoor_def Let_def concat_map_singleton split_def)

lemma servings_jsonld_to_tandoor:
  "servings (jsonld_to_tandoor recipe ov) =
     (if truthy ov then get ov 0 else int (original_servings recipe))"
  by (simp add: jsonld_to_tandoor_def Let_def)



















text \<open>
  Claim C10.  A servings override of 0 is the same as no override: the converted recipe
  is the one obtained without an override, its servings count is the number resolved
  from the yield string, and the ingredients of the first step are the parsed lines
  with their quantities as parsed.
\<close>

theorem servings_override_zero:
  "jsonld_to_tandoor recipe (Some 0) = jsonld_to_tandoor recipe None \<and>
   servings (jsonld_to_tandoor recipe (Some 0)) = int (original_servings recipe) \<and>
   first_ingredients recipe (Some 0)
     = map parse_ingredient_string (get (recipeIngredient recipe) [])"
  by (simp add: first_ingredients_def steps_jsonld_to_tandoor servings_jsonld_to_tandoor
      truthy_def)
    (simp add: jsonld_to_tandoor_def truthy_def)

section \<open>Properties of duplicate detection\<close>

lemma first_same_name_find:
  "first_same_name n hits =
     (case find (same_name n) hits of None \<Rightarrow> None | Some r \<Rightarrow> hit_id r)"
  by (induction hits) auto

lemma first_same_name_index:
  "i < length hits \<Longrightarrow> same_name n (hits ! i) \<Longrightarrow> (\<forall>j<i. \<not> same_name n (hits ! j))
   \<Longrightarrow> first_same_name n hits = hit_id (hits ! i)"
proof (induction hits arbitrary: i)
  case Nil
  then show ?case by simp
next
  case (Cons r rs)
  show ?case
  proof (cases i)
    case 0
    with Cons.prems show ?thesis by simp
  next
    case (Suc k)
    with Cons.prems have "\<not> same_name n r" by auto
    moreover from Suc Cons.prems have "first_same_name n rs = hit_id (rs ! k)"
      by (intro Cons.IH) auto
    ultimately show ?thesis using Suc by simp
  qed
qed

lemma first_same_name_none:
  "list_all (\<lambda>r. \<not> same_name n r) hits \<Longrightarrow> first_same_name n hits = None"
  by (induction hits) auto

lemma same_name_chicken:
  "same_name ''  Chicken Soup '' \<lparr>hit_name = Some ''chicken soup'', hit_id = Some 7\<rparr>"
  by code_simp

text \<open>
  Claim C8.  \<^verbatim>\<open>check_duplicate\<close> asks the publish target for the candidate name with a
  page of 5 results.  When the request raises, when the status is not 200 and when the
  body cannot be decoded, the answer is \<open>None\<close>: nothing is raised.  On a page of results,
  the answer is the id of the first result whose name is the candidate name after
  trimming and lower-casing both, and \<open>None\<close> when no result has that name;
  \<^verbatim>\<open>"  Chicken Soup "\<close> has the name of a result called \<^verbatim>\<open>"chicken soup"\<close>.
\<close>

theorem check_duplicate_advisory:
  "query (duplicate_query cand config) = cand \<and>
   page_size (duplicate_query cand config) = 5 \<and>
   (http_get (duplicate_query cand config) = Inl e \<longrightarrow>
      check_duplicate cand config http_get = None) \<and>
   (http_get (duplicate_query cand config) = Inr resp \<and> search_status resp \<noteq> 200 \<longrightarrow>
      check_duplicate cand config http_get = None) \<and>
   (http_get (duplicate_query cand config) = Inr resp \<and> search_json resp = Inl e \<longrightarrow>
      check_duplicate cand config http_get = None) \<and>
   (http_get (duplicate_query cand config) = Inr resp \<and> search_status resp = 200 \<and>
    search_json resp = Inr (Some hits) \<longrightarrow>
      (i < length hits \<and> same_name cand (hits ! i) \<and>
       (\<forall>j<i. \<not> same_name cand (hits ! j)) \<longrightarrow>
         check_duplicate cand config http_get = hit_id (hits ! i)) \<and>
      (list_all (\<lambda>r. \<not> same_name cand r) hits \<longrightarrow>
         check_duplicate cand config http_get = None)) \<and>
   same_name ''  Chicken Soup '' \<lparr>hit_name = Some ''chicken soup'', hit_id = Some 7\<rparr>"
  using first_same_name_index [of i hits cand] first_same_name_none [of cand hits]
    same_name_chicken
  by (auto simp: check_duplicate_def duplicate_query_def get_def)

lemma page_names:
  "\<not> same_name ''  Chicken Soup '' \<lparr>hit_name = Some ''Chicken Soup with Rice'', hit_id = Some 3\<rparr>"
  by code_simp

theorem check_duplicate_advisory_witness:
  "check_duplicate ''  Chicken Soup '' cfg (\<lambda>q. Inl ''timeout'') = None \<and>
   check_duplicate ''  Chicken Soup '' cfg
     (\<lambda>q. Inr \<lparr>search_status = 200, search_json = Inr (Some page)\<rparr>) = Some 7 \<and>
   check_duplicate ''  Chicken Soup '' cfg
     (\<lambda>q. Inr \<lparr>search_status = 500, search_json = Inr (Some page)\<rparr>) = None"
  using check_duplicate_advisory [of "''  Chicken Soup ''" cfg "\<lambda>q. Inl ''timeout''" "''timeout''"]
    check_duplicate_advisory [of "''  Chicken Soup ''" cfg
      "\<lambda>q. Inr \<lparr>search_status = 200, search_json = Inr (Some page)\<rparr>" _
      "\<lparr>search_status = 200, search_json = Inr (Some page)\<rparr>" page 1]
    check_duplicate_advisory [of "''  Chicken Soup ''" cfg
      "\<lambda>q. Inr \<lparr>search_status = 500, search_json = Inr (Some page)\<rparr>" _
      "\<lparr>search_status = 500, search_json = Inr (Some page)\<rparr>"]
    page_names same_name_chicken
  by (simp add: page_def)

section \<open>Properties of the orchestrator\<close>
















lemma process_video_example:
  "process_video quiet_world ''https://youtu.be/abcdefghijk'' cfg None False =
     Inr \<lparr>success = False, recipe_name = [], recipe_url = [], thumbnail_path = [],
          error_message = ''yt-dlp failed: ERROR: unsupported URL'', recipe_data = None\<rparr>"
  by code_simp

section \<open>Properties of the job queue\<close>

lemma enqueue_full:
  "full s \<Longrightarrow> enqueue j s = ([Queue_is_full], s)"
  by (simp add: enqueue_def)

lemma enqueue_admits:
  "\<not> full s \<Longrightarrow> snd (enqueue j s) = s\<lparr>job_queue := job_queue s @ [j]\<rparr>"
  by (simp add: enqueue_def Let_def)

text \<open>
  Claim C2, as the code has it.  A job submitted to a queue that holds
  \<^verbatim>\<open>MAX_QUEUE\<close> = 3 pending jobs gets the queue-full reply and is not admitted.
  Otherwise the job is appended; when the queue is non-empty or a job is executing the
  caller is first told the position \<open>qsize + 1\<close>, which is the 1-indexed place of the
  new job among the pending jobs (the executing job, already taken from the queue, is
  not counted); with an idle worker and an empty queue no position is sent.
\<close>

theorem enqueue_admission:
  "(3 \<le> qsize s \<longrightarrow> enqueue j s = ([Queue_is_full], s)) \<and>
   (qsize s < 3 \<and> (0 < qsize s \<or> processing s) \<longrightarrow>
      fst (enqueue j s) = [Queued_position (qsize s + 1)] \<and>
      snd (enqueue j s) = s\<lparr>job_queue := job_queue s @ [j]\<rparr> \<and>
      qsize (snd (enqueue j s)) = qsize s + 1 \<and>
      job_queue (snd (enqueue j s)) ! qsize s = j) \<and>
   (qsize s = 0 \<and> \<not> processing s \<longrightarrow>
      enqueue j s = ([], s\<lparr>job_queue := [j]\<rparr>))"
  by (simp add: enqueue_def full_def MAX_QUEUE_def qsize_def Let_def)

theorem enqueue_admission_witness:
  "enqueue (''u4'', 4) \<lparr>job_queue = [(''u1'', 1), (''u2'', 2), (''u3'', 3)], processing = False\<rparr>
     = ([Queue_is_full], \<lparr>job_queue = [(''u1'', 1), (''u2'', 2), (''u3'', 3)], processing = False\<rparr>) \<and>
   fst (enqueue (''u2'', 2) \<lparr>job_queue = [(''u1'', 1)], processing = False\<rparr>) = [Queued_position 2] \<and>
   job_queue (snd (enqueue (''u2'', 2) \<lparr>job_queue = [(''u1'', 1)], processing = False\<rparr>))
     = [(''u1'', 1), (''u2'', 2)] \<and>
   enqueue (''u1'', 1) initial_state = ([], \<lparr>job_queue = [(''u1'', 1)], processing = False\<rparr>)"
  using enqueue_admission [of "\<lparr>job_queue = [(''u1'', 1), (''u2'', 2), (''u3'', 3)], processing = False\<rparr>" "(''u4'', 4)"]
    enqueue_admission [of "\<lparr>job_queue = [(''u1'', 1)], processing = False\<rparr>" "(''u2'', 2)"]
    enqueue_admission [of initial_state "(''u1'', 1)"]
  by (simp add: qsize_def initial_state_def)

text \<open>
  Claim C2, as stated, at the run it names: the first job is submitted to the idle bot,
  the worker takes it and is processing it, and the second job is submitted.  The queue
  is empty then, and the reply is position 1, not position 2.
\<close>

theorem enqueue_second_while_processing_counterexample:
  "(case worker_get (snd (enqueue (''u1'', 1) initial_state)) of
      None \<Rightarrow> False
    | Some (j, s) \<Rightarrow>
        j = (''u1'', 1) \<and> processing s \<and>
        fst (enqueue (''u2'', 2) s) = [Queued_position 1] \<and>
        fst (enqueue (''u2'', 2) s) \<noteq> [Queued_position 2])"
  by (simp add: enqueue_def full_def MAX_QUEUE_def qsize_def Let_def
      worker_get_def initial_state_def)

end
